theory Spec2Isabelle
  imports Main "HOL-Library.Word"
begin

section \<open>C strings and the library calls of pathtools.cpp\<close>

text \<open>
  A \<open>std::string\<close> is a \<open>string\<close> (a list of bytes); it may hold the byte 0.
  \<open>c_str()\<close> is the same bytes followed by a terminating 0, so the C functions below
  read the end of the list as that terminator.
\<close>

definition NUL :: char where
  "NUL = CHR 0x00"

text \<open>
  \<open>strncmp(s, t, n)\<close>: compares at most \<open>n\<close> bytes as unsigned chars and stops after a
  0 byte. The result is negative, zero or positive; the model returns -1, 0 or 1.
\<close>

fun strncmp :: "string \<Rightarrow> string \<Rightarrow> nat \<Rightarrow> int" where
  "strncmp s t 0 = 0"
| "strncmp [] [] (Suc n) = 0"
| "strncmp [] (b # bs) (Suc n) = (if b = NUL then 0 else -1)"
| "strncmp (a # as) [] (Suc n) = (if a = NUL then 0 else 1)"
| "strncmp (a # as) (b # bs) (Suc n) =
     (if a \<noteq> b then (if (of_char a :: nat) < of_char b then -1 else 1)
      else if a = NUL then 0
      else strncmp as bs n)"

section \<open>URI scheme detection\<close>

text \<open>
  \<^verbatim>\<open>
  bool IsFileUri( const std::string & sUri )
  {
      return 0 == std::strncmp( sUri.c_str(), "file://", 7 )
          || 0 == std::strncmp( sUri.c_str(), "FILE://", 7 );
  }
  \<close>
\<close>

definition IsFileUri :: "string \<Rightarrow> bool" where
  "IsFileUri sUri \<longleftrightarrow>
     0 = strncmp sUri ''file://'' 7 \<or> 0 = strncmp sUri ''FILE://'' 7"

text \<open>
  Modelled from the spec: \<open>tools::stringToLower\<close> is declared in tools/stringtools.h,
  which is not among the sources. The specification says that \<open>IsHttpUri\<close>
  "lower-cases the full input"; the model maps the C-locale \<open>tolower\<close> over every
  byte, which changes the letters A to Z only.
\<close>

definition tolower :: "char \<Rightarrow> char" where
  "tolower c =
     (let n = (of_char c :: nat) in if 65 \<le> n \<and> n \<le> 90 then char_of (n + 32) else c)"

definition stringToLower :: "string \<Rightarrow> string" where
  "stringToLower s = map tolower s"

text \<open>
  \<^verbatim>\<open>
  bool IsHttpUri(const std::string& sUri)
  {
      std::string lowerUri = tools::stringToLower(sUri);
      return 0 == std::strncmp(lowerUri.c_str(), "http://", 7 )
          || 0 == std::strncmp(lowerUri.c_str(), "https://", 8 );
  }
  \<close>
\<close>

definition IsHttpUri :: "string \<Rightarrow> bool" where
  "IsHttpUri sUri \<longleftrightarrow>
     (let lowerUri = stringToLower sUri
      in 0 = strncmp lowerUri ''http://'' 7 \<or> 0 = strncmp lowerUri ''https://'' 8)"

section \<open>Conversion between file URIs and paths\<close>

text \<open>
  The members of \<open>std::string\<close> that throw do so with \<open>std::out_of_range\<close>, when the
  position lies behind the end of the string.
\<close>

datatype error = out_of_range

definition substr :: "string \<Rightarrow> nat \<Rightarrow> error + string" where
  "substr s pos = (if length s < pos then Inl out_of_range else Inr (drop pos s))"

definition erase :: "string \<Rightarrow> nat \<Rightarrow> nat \<Rightarrow> error + string" where
  "erase s pos n =
     (if length s < pos then Inl out_of_range
      else Inr (take pos s @ drop (pos + min n (length s - pos)) s))"

text \<open>
  \<open>FileUriToPath\<close> returns a \<open>std::filesystem::path\<close> built from a string; the model
  returns that string. The macro \<open>_WINDOWS\<close> selects a branch at compile time and is
  a parameter here. \<open>sUri[7]\<close> is read only after \<open>sUri.size() < 8\<close> has failed.
  \<^verbatim>\<open>
  if ( sUri.size() < 8 || !IsFileUri( sUri ) )
      return "";
  if ( sUri[7] == '/' )
      return sUri.substr( 8 );
  else
  #if defined( _WINDOWS )
      return sUri.substr( 5 );
  #else
      return sUri.substr( 6 );
  #endif
  \<close>
\<close>

definition FileUriToPath :: "bool \<Rightarrow> string \<Rightarrow> error + string" where
  "FileUriToPath WINDOWS sUri =
     (if length sUri < 8 \<or> \<not> IsFileUri sUri then Inr []
      else if sUri ! 7 = CHR ''/'' then substr sUri 8
      else if WINDOWS then substr sUri 5
      else substr sUri 6)"

text \<open>
  \<open>PathToFileUri\<close> reads its argument through the decomposition that
  \<open>std::filesystem::path\<close> offers: \<open>root_name()\<close>, \<open>root_directory()\<close> and
  \<open>relative_path()\<close>, whose concatenation is the pathname. A path is modelled by these
  three strings. \<open>generic_string()\<close> writes every directory separator as a slash.
\<close>

record path =
  root_name :: string
  root_directory :: string
  relative_path :: string

definition backslash :: char where
  "backslash = CHR 0x5C"

definition native :: "path \<Rightarrow> string" where
  "native p = root_name p @ root_directory p @ relative_path p"

definition has_root_name :: "path \<Rightarrow> bool" where
  "has_root_name p \<longleftrightarrow> root_name p \<noteq> []"

text \<open>\<open>std::replace( first, last, old, new )\<close> over a whole string.\<close>

fun replace :: "string \<Rightarrow> char \<Rightarrow> char \<Rightarrow> string" where
  "replace [] old new = []"
| "replace (c # cs) old new = (if c = old then new else c) # replace cs old new"

definition generic_string :: "string \<Rightarrow> string" where
  "generic_string s = replace s backslash (CHR ''/'')"

text \<open>
  \<^verbatim>\<open>
  std::string sUri;
  if ( path.has_root_name() )
  {
      std::string sRootName = path.root_name().string();
      if ( sRootName.size() >= 2 && !strncmp( sRootName.c_str(), "//", 2 )
           || !strncmp( sRootName.c_str(), "\\\\", 2 ) )
          sUri = std::string( "file:" ) + path.root_name().generic_string();
      else
          sUri = std::string( "file:///" ) + path.root_name().generic_string();
  }
  else
      sUri = "file://";
  sUri += path.root_directory().string();
  sUri += path.relative_path().string();
  std::replace( sUri.begin(), sUri.end(), '\\', '/' );
  return sUri;
  \<close>
\<close>

definition PathToFileUri :: "path \<Rightarrow> string" where
  "PathToFileUri p =
     (let sUri0 =
        (if has_root_name p then
           (let sRootName = root_name p
            in if (2 \<le> length sRootName \<and> strncmp sRootName ''//'' 2 = 0)
                  \<or> strncmp sRootName [backslash, backslash] 2 = 0
               then ''file:'' @ generic_string (root_name p)
               else ''file:///'' @ generic_string (root_name p))
         else ''file://'');
        sUri1 = sUri0 @ root_directory p;
        sUri2 = sUri1 @ relative_path p
      in replace sUri2 backslash (CHR ''/''))"

section \<open>Subpath sanitizer\<close>

text \<open>
  Modelled from the spec: \<open>stringIsPrefix\<close> is declared in tools/stringtools.h, which
  is not among the sources. The specification says "Strip a recognized scheme prefix if
  present": \<open>stringIsPrefix( prefix, s )\<close> holds when \<open>s\<close> starts with \<open>prefix\<close>.
\<close>

definition stringIsPrefix :: "string \<Rightarrow> string \<Rightarrow> bool" where
  "stringIsPrefix sPrefix sTest \<longleftrightarrow> take (length sPrefix) sTest = sPrefix"

definition strlen :: "string \<Rightarrow> nat" where
  "strlen s = length (takeWhile (\<lambda>c. c \<noteq> NUL) s)"

type_synonym size_t = "64 word"

text \<open>The body of the \<open>switch\<close>, and the loop \<open>for ( auto & c : result )\<close> around it.\<close>

definition switch_char :: "char \<Rightarrow> char" where
  "switch_char c =
     (if c = CHR ''/'' then CHR ''_''
      else if c = backslash then CHR ''_''
      else if c = CHR ''#'' then CHR ''_''
      else if c = CHR ''?'' then CHR ''_''
      else if c = CHR '':'' then CHR ''_''
      else if c = CHR ''.'' then CHR ''_''
      else if c = CHR ''&'' then CHR ''_''
      else c)"

fun replace_loop :: "string \<Rightarrow> string" where
  "replace_loop [] = []"
| "replace_loop (c # cs) = switch_char c # replace_loop cs"

text \<open>
  \<open>size()\<close> is the length of the string. \<open>maxLength - result.size()\<close> is a subtraction
  of \<open>size_t\<close> values and wraps around; \<open>erase( 0, n )\<close> removes at most the whole string.
  \<^verbatim>\<open>
  std::string result;
  if ( stringIsPrefix( "http://", uri ) )
      result.assign( uri.begin() + strlen( "http://" ), uri.end() );
  else if ( stringIsPrefix( "https://", uri ) )
      result.assign( uri.begin() + strlen( "https://" ), uri.end() );
  else if ( stringIsPrefix( "ipfs://", uri ) )
      result.assign( uri.begin() + strlen( "ipfs://" ), uri.end() );
  else
      result = uri;
  for ( auto & c : result ) { switch ( c ) { ... c = '_'; ... } }
  if ( result.size() > maxLength )
      result.erase( 0, maxLength - result.size() );
  return result;
  \<close>
\<close>

definition UriToSubpath :: "string \<Rightarrow> size_t \<Rightarrow> error + string" where
  "UriToSubpath uri maxLength =
     (let result0 =
        (if stringIsPrefix ''http://'' uri then drop (strlen ''http://'') uri
         else if stringIsPrefix ''https://'' uri then drop (strlen ''https://'') uri
         else if stringIsPrefix ''ipfs://'' uri then drop (strlen ''ipfs://'') uri
         else uri);
        result1 = replace_loop result0
      in if unat maxLength < length result1
         then erase result1 0 (unat (maxLength - of_nat (length result1)))
         else Inr result1)"

subsection \<open>The sanitizer in the words of the specification\<close>

text \<open>
  Step 1: the first of \<open>http://\<close>, \<open>https://\<close>, \<open>ipfs://\<close> that the URI starts with is
  stripped; if none matches, the URI is unchanged. Step 2: each of the characters
  \<open>/ \ # ? : . &\<close> becomes an underscore.
\<close>

definition special_chars :: "char list" where
  "special_chars =
     [CHR ''/'', backslash, CHR ''#'', CHR ''?'', CHR '':'', CHR ''.'', CHR ''&'']"

definition spec_strip_scheme :: "string \<Rightarrow> string" where
  "spec_strip_scheme uri =
     (case find (\<lambda>p. take (length p) uri = p) [''http://'', ''https://'', ''ipfs://''] of
        None \<Rightarrow> uri
      | Some p \<Rightarrow> drop (length p) uri)"

definition spec_replace_special :: "string \<Rightarrow> string" where
  "spec_replace_special s = map (\<lambda>c. if c \<in> set special_chars then CHR ''_'' else c) s"

section \<open>Properties\<close>

lemma strncmp_eq_0_iff:
  "NUL \<notin> set t \<Longrightarrow> length t = n \<Longrightarrow> strncmp s t n = 0 \<longleftrightarrow> take n s = t"
proof (induction t arbitrary: s n)
  case Nil
  then show ?case by simp
next
  case (Cons b bs)
  then obtain m where n: "n = Suc m" and m: "length bs = m" by auto
  from Cons.prems have nul: "b \<noteq> NUL" "NUL \<notin> set bs" by auto
  show ?case
  proof (cases s)
    case Nil
    with n nul show ?thesis by simp
  next
    case (Cons a as)
    with n nul Cons.IH [OF nul(2) m, of as] show ?thesis by auto
  qed
qed

lemma strncmp_file_lower: "strncmp s ''file://'' 7 = 0 \<longleftrightarrow> take 7 s = ''file://''"
  by (rule strncmp_eq_0_iff) (simp_all add: NUL_def)

lemma strncmp_file_upper: "strncmp s ''FILE://'' 7 = 0 \<longleftrightarrow> take 7 s = ''FILE://''"
  by (rule strncmp_eq_0_iff) (simp_all add: NUL_def)

lemma IsFileUri_iff: "IsFileUri s \<longleftrightarrow> take 7 s = ''file://'' \<or> take 7 s = ''FILE://''"
  unfolding IsFileUri_def using strncmp_file_lower [of s] strncmp_file_upper [of s]
  by (metis)


lemma strncmp_http: "strncmp s ''http://'' 7 = 0 \<longleftrightarrow> take 7 s = ''http://''"
  by (rule strncmp_eq_0_iff) (simp_all add: NUL_def)

lemma strncmp_https: "strncmp s ''https://'' 8 = 0 \<longleftrightarrow> take 8 s = ''https://''"
  by (rule strncmp_eq_0_iff) (simp_all add: NUL_def)

lemma IsHttpUri_iff:
  "IsHttpUri s \<longleftrightarrow>
     take 7 (stringToLower s) = ''http://'' \<or> take 8 (stringToLower s) = ''https://''"
  unfolding IsHttpUri_def Let_def using strncmp_http strncmp_https by metis

lemma tolower_f: "tolower (CHR ''f'') = CHR ''f''" "tolower (CHR ''F'') = CHR ''f''"
  by code_simp+

lemma IsFileUri_hd: "IsFileUri s \<Longrightarrow> \<exists>cs. s = CHR ''f'' # cs \<or> s = CHR ''F'' # cs"
  by (cases s) (auto simp: IsFileUri_iff)

lemma IsHttpUri_hd: "IsHttpUri s \<Longrightarrow> \<exists>c cs. s = c # cs \<and> tolower c = CHR ''h''"
  by (cases s) (auto simp: IsHttpUri_iff stringToLower_def)

lemma IsHttpUri_not_file: "IsHttpUri s \<Longrightarrow> \<not> IsFileUri s"
proof
  assume h: "IsHttpUri s" and f: "IsFileUri s"
  from IsHttpUri_hd [OF h] obtain c cs where s: "s = c # cs" and c: "tolower c = CHR ''h''"
    by blast
  from IsFileUri_hd [OF f] s have "c = CHR ''f'' \<or> c = CHR ''F''" by auto
  with c tolower_f show False by auto
qed

subsection \<open>Scheme detection\<close>

text \<open>
  C7: \<open>IsFileUri\<close> holds exactly when the input starts with the seven characters
  \<open>file://\<close> or the seven characters \<open>FILE://\<close>. An input shorter than seven
  characters is rejected (the comparison stops at the terminator of \<open>c_str()\<close> and
  reads nothing behind it), and the mixed casing \<open>File://\<close> is rejected.
\<close>

theorem IsFileUri_exact:
  "(IsFileUri uri \<longleftrightarrow> take 7 uri = ''file://'' \<or> take 7 uri = ''FILE://'')
   \<and> (length uri < 7 \<longrightarrow> \<not> IsFileUri uri)
   \<and> \<not> IsFileUri ''File://fnord''"
proof -
  have a: "IsFileUri uri \<longleftrightarrow> take 7 uri = ''file://'' \<or> take 7 uri = ''FILE://''"
    by (rule IsFileUri_iff)
  have b: "length uri < 7 \<longrightarrow> \<not> IsFileUri uri"
  proof
    assume "length uri < 7"
    then have "length (take 7 uri) < 7" by simp
    then have "take 7 uri \<noteq> ''file://''" "take 7 uri \<noteq> ''FILE://''" by auto
    with a show "\<not> IsFileUri uri" by simp
  qed
  have c: "\<not> IsFileUri ''File://fnord''" by (simp add: IsFileUri_iff)
  from a b c show ?thesis by blast
qed

theorem IsFileUri_exact_witness:
  "length ''file:'' < 7 \<and> \<not> IsFileUri ''file:'' \<and> IsFileUri ''FILE://fnord''"
  using IsFileUri_exact [of "''file:''"] IsFileUri_exact [of "''FILE://fnord''"] by simp

text \<open>
  C8: \<open>IsHttpUri\<close> holds exactly when the lower-cased input starts with \<open>http://\<close> or
  \<open>https://\<close>, whatever the casing of the input, and no input that \<open>IsHttpUri\<close>
  accepts is accepted by \<open>IsFileUri\<close>.
\<close>

theorem IsHttpUri_case_insensitive:
  "(IsHttpUri uri \<longleftrightarrow>
      take 7 (stringToLower uri) = ''http://'' \<or> take 8 (stringToLower uri) = ''https://'')
   \<and> (IsHttpUri uri \<longrightarrow> \<not> IsFileUri uri)"
  using IsHttpUri_iff [of uri] IsHttpUri_not_file [of uri] by blast

theorem IsHttpUri_case_insensitive_witness:
  "IsHttpUri ''HtTpS://Foo.com'' \<and> \<not> IsFileUri ''HtTpS://Foo.com''"
proof -
  have "take 8 (stringToLower ''HtTpS://Foo.com'') = ''https://''"
    by code_simp
  with IsHttpUri_case_insensitive [of "''HtTpS://Foo.com''"] show ?thesis by blast
qed

subsection \<open>From a file URI to a path\<close>

text \<open>
  C6: for an input shorter than eight characters, or one that \<open>IsFileUri\<close> rejects,
  \<open>FileUriToPath\<close> returns the empty path and throws nothing, on either platform.
\<close>

theorem FileUriToPath_soft_failure:
  "length uri < 8 \<or> \<not> IsFileUri uri \<Longrightarrow> FileUriToPath w uri = Inr []"
  by (simp add: FileUriToPath_def)

theorem FileUriToPath_soft_failure_witness:
  "(length ''file://'' < 8 \<or> \<not> IsFileUri ''file://'') \<and> FileUriToPath True ''file://'' = Inr []
   \<and> \<not> IsFileUri ''http://fnord'' \<and> FileUriToPath False ''http://fnord'' = Inr []"
proof -
  have a: "length ''file://'' < 8 \<or> \<not> IsFileUri ''file://''" by simp
  have b: "\<not> IsFileUri ''http://fnord''" by (simp add: IsFileUri_iff)
  then have b': "length ''http://fnord'' < 8 \<or> \<not> IsFileUri ''http://fnord''" by blast
  from a b FileUriToPath_soft_failure [OF a, of True] FileUriToPath_soft_failure [OF b', of False]
  show ?thesis by blast
qed

text \<open>
  C4: for an input of at least eight characters that \<open>IsFileUri\<close> accepts and whose
  character at index 7 is not a slash, the result depends on the platform: with
  \<open>_WINDOWS\<close> it is the input from index 5 on, which starts with two slashes, and
  without it the input from index 6 on, which starts with one.
\<close>

theorem FileUriToPath_authority:
  assumes "8 \<le> length uri" and "IsFileUri uri" and "uri ! 7 \<noteq> CHR ''/''"
  shows "FileUriToPath True uri = Inr (drop 5 uri)
       \<and> FileUriToPath False uri = Inr (drop 6 uri)
       \<and> take 2 (drop 5 uri) = ''//'' \<and> take 1 (drop 6 uri) = ''/''"
proof -
  from assms have a: "FileUriToPath True uri = Inr (drop 5 uri)"
    and b: "FileUriToPath False uri = Inr (drop 6 uri)"
    by (simp_all add: FileUriToPath_def substr_def)
  from assms(2) have "take 7 uri = ''file://'' \<or> take 7 uri = ''FILE://''"
    by (simp add: IsFileUri_iff)
  then have "drop 5 (take 7 uri) = ''//''" "drop 6 (take 7 uri) = ''/''" by auto
  then have "take 2 (drop 5 uri) = ''//''" "take 1 (drop 6 uri) = ''/''"
    by (simp_all add: drop_take)
  with a b show ?thesis by blast
qed

theorem FileUriToPath_authority_witness:
  "8 \<le> length ''file://host/some/path'' \<and> IsFileUri ''file://host/some/path''
   \<and> ''file://host/some/path'' ! 7 \<noteq> CHR ''/''
   \<and> FileUriToPath True ''file://host/some/path'' = Inr ''//host/some/path''
   \<and> FileUriToPath False ''file://host/some/path'' = Inr ''/host/some/path''"
proof -
  have a: "8 \<le> length ''file://host/some/path''" by simp
  have b: "IsFileUri ''file://host/some/path''" by (simp add: IsFileUri_iff)
  have c: "''file://host/some/path'' ! 7 \<noteq> CHR ''/''" by simp
  from a b c FileUriToPath_authority [OF a b c] show ?thesis by simp
qed

text \<open>
  C10: \<open>file:///\<close> has exactly eight characters and is accepted by \<open>IsFileUri\<close>, and
  \<open>FileUriToPath\<close> returns the empty path for it: the value it also returns for an
  input of the wrong scheme and for an input that is too short.
\<close>

theorem FileUriToPath_empty_path_is_sentinel:
  "length ''file:///'' = 8 \<and> IsFileUri ''file:///''
   \<and> FileUriToPath w ''file:///'' = Inr []
   \<and> \<not> IsFileUri ''http://fnord'' \<and> FileUriToPath w ''http://fnord'' = Inr []
   \<and> length ''file:/'' < 8 \<and> FileUriToPath w ''file:/'' = Inr []"
  by (simp add: FileUriToPath_def IsFileUri_iff substr_def)

theorem FileUriToPath_empty_path_is_sentinel_witness:
  "FileUriToPath True ''file:///'' = Inr [] \<and> FileUriToPath False ''file:///'' = Inr []
   \<and> FileUriToPath True ''file:/'' = Inr [] \<and> FileUriToPath False ''http://fnord'' = Inr []"
  using FileUriToPath_empty_path_is_sentinel [of True]
    FileUriToPath_empty_path_is_sentinel [of False] by blast

subsection \<open>From a path to a file URI and back\<close>

lemma replace_append: "replace (xs @ ys) a b = replace xs a b @ replace ys a b"
  by (induction xs) simp_all

lemma replace_idem: "a \<noteq> b \<Longrightarrow> replace (replace xs a b) a b = replace xs a b"
  by (induction xs) simp_all

lemma generic_string_append: "generic_string (xs @ ys) = generic_string xs @ generic_string ys"
  by (simp add: generic_string_def replace_append)

lemma generic_string_idem: "generic_string (generic_string xs) = generic_string xs"
  by (simp add: generic_string_def backslash_def replace_idem)

lemma strncmp_slashes: "strncmp s ''//'' 2 = 0 \<longleftrightarrow> take 2 s = ''//''"
  by (rule strncmp_eq_0_iff) (simp_all add: NUL_def)

lemma strncmp_backslashes:
  "strncmp s [backslash, backslash] 2 = 0 \<longleftrightarrow> take 2 s = [backslash, backslash]"
  by (rule strncmp_eq_0_iff) (simp_all add: NUL_def backslash_def)

lemma PathToFileUri_drive:
  assumes "root_name p \<noteq> []" and "take 2 (root_name p) \<noteq> ''//''"
    and "take 2 (root_name p) \<noteq> [backslash, backslash]"
  shows "PathToFileUri p = ''file:///'' @ generic_string (native p)"
proof -
  have lit: "generic_string ''file:///'' = ''file:///''"
    by (simp add: generic_string_def backslash_def)
  from assms have
    "PathToFileUri p =
       generic_string ((''file:///'' @ generic_string (root_name p)) @ root_directory p
         @ relative_path p)"
    by (simp add: PathToFileUri_def has_root_name_def strncmp_slashes strncmp_backslashes
        generic_string_def [symmetric] Let_def)
  also have "\<dots> = ''file:///'' @ generic_string (native p)"
    unfolding generic_string_append generic_string_idem lit native_def by simp
  finally show ?thesis .
qed

lemma FileUriToPath_triple_slash: "FileUriToPath w (''file:///'' @ s) = Inr s"
  by (simp add: FileUriToPath_def IsFileUri_iff substr_def)

text \<open>
  C3, as stated, fails: the path \<open>/fnord\<close> has no root name, hence no UNC authority;
  its URI is \<open>file:///fnord\<close>, and \<open>FileUriToPath\<close> turns that into \<open>fnord\<close> on
  either platform, not into \<open>/fnord\<close>.
\<close>

theorem PathToFileUri_roundtrip_counterexample:
  "take 2 (root_name \<lparr>root_name = [], root_directory = ''/'', relative_path = ''fnord''\<rparr>) \<noteq> ''//''
   \<and> take 2 (root_name \<lparr>root_name = [], root_directory = ''/'', relative_path = ''fnord''\<rparr>)
        \<noteq> [backslash, backslash]
   \<and> generic_string (native \<lparr>root_name = [], root_directory = ''/'', relative_path = ''fnord''\<rparr>)
        = ''/fnord''
   \<and> PathToFileUri \<lparr>root_name = [], root_directory = ''/'', relative_path = ''fnord''\<rparr>
        = ''file:///fnord''
   \<and> FileUriToPath True
        (PathToFileUri \<lparr>root_name = [], root_directory = ''/'', relative_path = ''fnord''\<rparr>)
        = Inr ''fnord''
   \<and> FileUriToPath False
        (PathToFileUri \<lparr>root_name = [], root_directory = ''/'', relative_path = ''fnord''\<rparr>)
        = Inr ''fnord''"
  by (simp add: PathToFileUri_def has_root_name_def generic_string_def native_def backslash_def
      FileUriToPath_def IsFileUri_iff substr_def)

text \<open>
  C3, amended: for every path that has a root name not beginning with \<open>//\<close> or with two
  backslashes (a drive letter), \<open>FileUriToPath (PathToFileUri p)\<close> is the forward-slash
  form of \<open>p\<close>, on either platform.
\<close>

theorem PathToFileUri_roundtrip_drive:
  assumes "root_name p \<noteq> []" and "take 2 (root_name p) \<noteq> ''//''"
    and "take 2 (root_name p) \<noteq> [backslash, backslash]"
  shows "FileUriToPath w (PathToFileUri p) = Inr (generic_string (native p))"
  unfolding PathToFileUri_drive [OF assms] by (rule FileUriToPath_triple_slash)

theorem PathToFileUri_roundtrip_drive_witness:
  "root_name \<lparr>root_name = ''c:'', root_directory = [backslash],
       relative_path = ''somepath'' @ [backslash] @ ''somefile.ext''\<rparr> \<noteq> []
   \<and> take 2 (root_name \<lparr>root_name = ''c:'', root_directory = [backslash],
       relative_path = ''somepath'' @ [backslash] @ ''somefile.ext''\<rparr>) \<noteq> ''//''
   \<and> take 2 (root_name \<lparr>root_name = ''c:'', root_directory = [backslash],
       relative_path = ''somepath'' @ [backslash] @ ''somefile.ext''\<rparr>) \<noteq> [backslash, backslash]
   \<and> FileUriToPath True (PathToFileUri \<lparr>root_name = ''c:'', root_directory = [backslash],
       relative_path = ''somepath'' @ [backslash] @ ''somefile.ext''\<rparr>)
       = Inr ''c:/somepath/somefile.ext''"
proof -
  define p where "p = \<lparr>root_name = ''c:'', root_directory = [backslash],
       relative_path = ''somepath'' @ [backslash] @ ''somefile.ext''\<rparr>"
  have a: "root_name p \<noteq> []" and b: "take 2 (root_name p) \<noteq> ''//''"
    and c: "take 2 (root_name p) \<noteq> [backslash, backslash]"
    by (simp_all add: p_def backslash_def)
  have d: "generic_string (native p) = ''c:/somepath/somefile.ext''"
    by (simp add: p_def generic_string_def native_def backslash_def)
  from a b c PathToFileUri_roundtrip_drive [OF a b c, of True] show ?thesis
    unfolding d unfolding p_def by blast
qed

subsection \<open>The subpath sanitizer\<close>

text \<open>
  The loop over the \<open>switch\<close> and the chain of prefix tests compute what the
  specification describes as steps 1 and 2.
\<close>

lemma switch_char_eq:
  "switch_char c = (if c \<in> set special_chars then CHR ''_'' else c)"
  by (simp add: switch_char_def special_chars_def)

lemma replace_loop_eq: "replace_loop s = spec_replace_special s"
  by (induction s) (simp_all add: spec_replace_special_def switch_char_eq)

lemma strlen_schemes:
  "strlen ''http://'' = 7" "strlen ''https://'' = 8" "strlen ''ipfs://'' = 7"
  by (simp_all add: strlen_def NUL_def)

lemma length_schemes:
  "length ''http://'' = 7" "length ''https://'' = 8" "length ''ipfs://'' = 7"
  by simp_all

lemma strip_chain_eq:
  "(if stringIsPrefix ''http://'' uri then drop (strlen ''http://'') uri
    else if stringIsPrefix ''https://'' uri then drop (strlen ''https://'') uri
    else if stringIsPrefix ''ipfs://'' uri then drop (strlen ''ipfs://'') uri
    else uri) = spec_strip_scheme uri"
  unfolding spec_strip_scheme_def stringIsPrefix_def strlen_schemes length_schemes find.simps
  by (cases "take 7 uri = ''http://''"; cases "take 8 uri = ''https://''";
      cases "take 7 uri = ''ipfs://''")
    (simp_all only: if_True if_False option.case length_schemes simp_thms)

lemma erase_front: "erase s 0 n = Inr (drop (min n (length s)) s)"
  by (simp add: erase_def)

lemma UriToSubpath_unfold:
  "UriToSubpath uri maxLength =
     (let r = spec_replace_special (spec_strip_scheme uri)
      in if unat maxLength < length r
         then Inr (drop (min (unat (maxLength - of_nat (length r))) (length r)) r)
         else Inr r)"
  unfolding UriToSubpath_def strip_chain_eq replace_loop_eq erase_front by (simp add: Let_def)

lemma length_spec_replace_special: "length (spec_replace_special s) = length s"
  by (simp add: spec_replace_special_def)

lemma length_spec_strip_scheme: "length (spec_strip_scheme uri) \<le> length uri"
  by (simp add: spec_strip_scheme_def)

lemma set_spec_replace_special: "set (spec_replace_special s) \<inter> set special_chars = {}"
  by (auto simp: spec_replace_special_def special_chars_def backslash_def)

lemma unat_wrapped_count:
  assumes "0 < n" and "n < 2 ^ 63"
  shows "n \<le> unat (0 - of_nat n :: size_t)"
proof -
  from assms have n: "unat (of_nat n :: size_t) = n"
    by (intro of_nat_inverse [OF refl]) simp
  have "unat (0 - of_nat n :: size_t) = 2 ^ 64 - n"
    using unat_sub_if_size [of 0 "of_nat n :: size_t"] assms n by (simp add: word_size)
  with assms show ?thesis by simp
qed

text \<open>
  C1: at \<open>uri = 01234567890123456789\<close> and \<open>maxLength = 7\<close> the stripped and replaced
  string has 20 characters, more than \<open>maxLength\<close>. The claim asks for its trailing seven
  characters, \<open>3456789\<close>; the function returns the empty string. The count handed to
  \<open>erase\<close> is \<open>maxLength - result.size()\<close>, which wraps around to \<open>2^64 - 13\<close>, so
  the whole string is removed.
\<close>

theorem UriToSubpath_truncation_erases_all:
  "UriToSubpath ''01234567890123456789'' 7 = Inr []
   \<and> UriToSubpath ''01234567890123456789'' 7 \<noteq> Inr ''3456789''"
  by (simp add: UriToSubpath_def stringIsPrefix_def strlen_def NUL_def switch_char_def
      backslash_def erase_def)

text \<open>
  C2, as stated, fails: with \<open>maxLength = 0\<close> the input \<open>http://foo.com\<close>, whose stripped
  and replaced form is \<open>foo_com\<close>, yields the empty string.
\<close>

theorem UriToSubpath_zero_counterexample:
  "spec_replace_special (spec_strip_scheme ''http://foo.com'') = ''foo_com''
   \<and> UriToSubpath ''http://foo.com'' 0 = Inr []
   \<and> UriToSubpath ''http://foo.com'' 0
       \<noteq> Inr (spec_replace_special (spec_strip_scheme ''http://foo.com''))"
  by (simp add: UriToSubpath_unfold spec_replace_special_def spec_strip_scheme_def
      special_chars_def backslash_def)

text \<open>
  C2, amended: zero is not treated specially. Every non-empty string is longer than a
  \<open>maxLength\<close> of zero, and \<open>UriToSubpath uri 0\<close> is the empty string for every \<open>uri\<close>
  (of a length below \<open>2^63\<close>, the largest a \<open>std::string\<close> can have).
\<close>

theorem UriToSubpath_zero_empty:
  assumes "length uri < 2 ^ 63"
  shows "UriToSubpath uri 0 = Inr []"
proof -
  define r where "r = spec_replace_special (spec_strip_scheme uri)"
  have len: "length r < 2 ^ 63"
    using assms length_spec_strip_scheme [of uri]
    by (simp add: r_def length_spec_replace_special)
  show ?thesis
  proof (cases "r = []")
    case True
    then show ?thesis by (simp add: UriToSubpath_unfold r_def [symmetric])
  next
    case False
    then have "0 < length r" by simp
    from unat_wrapped_count [OF this len]
    have "min (unat (0 - of_nat (length r) :: size_t)) (length r) = length r" by simp
    then show ?thesis
      by (simp add: UriToSubpath_unfold r_def [symmetric] Let_def)
  qed
qed

theorem UriToSubpath_zero_empty_witness:
  "length ''http://foo.com'' < 2 ^ 63 \<and> UriToSubpath ''http://foo.com'' 0 = Inr []"
proof -
  have a: "length ''http://foo.com'' < 2 ^ 63" by simp
  from a UriToSubpath_zero_empty [OF a] show ?thesis by blast
qed

text \<open>
  C9: for every \<open>uri\<close> and every \<open>maxLength\<close>, \<open>UriToSubpath\<close> returns a string, and
  none of the characters \<open>/ \ # ? : . &\<close> occurs in it, with or without truncation.
\<close>

theorem UriToSubpath_no_special_chars:
  "\<exists>r. UriToSubpath uri maxLength = Inr r \<and> set r \<inter> set special_chars = {}"
proof -
  define r where "r = spec_replace_special (spec_strip_scheme uri)"
  have r: "set r \<inter> set special_chars = {}"
    unfolding r_def by (rule set_spec_replace_special)
  have "set (drop k r) \<inter> set special_chars = {}" for k
    using r set_drop_subset [of k r] by blast
  with r show ?thesis
    by (simp add: UriToSubpath_unfold r_def [symmetric] Let_def)
qed

theorem UriToSubpath_no_special_chars_witness:
  "UriToSubpath ''https://foo.com/x?y#1'' 5 = Inr []
   \<and> UriToSubpath ''a/b.c'' 5 = Inr ''a_b_c''
   \<and> (\<exists>r. UriToSubpath ''a/b.c'' 5 = Inr r \<and> set r \<inter> set special_chars = {})"
proof -
  have "UriToSubpath ''https://foo.com/x?y#1'' 5 = Inr []"
    and "UriToSubpath ''a/b.c'' 5 = Inr ''a_b_c''"
    by (simp_all add: UriToSubpath_unfold spec_replace_special_def spec_strip_scheme_def
        special_chars_def backslash_def)
  with UriToSubpath_no_special_chars [of "''a/b.c''" 5] show ?thesis by blast
qed

text \<open>
  C5: when the stripped and replaced form of \<open>uri\<close> is not longer than \<open>maxLength\<close>,
  \<open>UriToSubpath\<close> returns it: the first matching prefix among \<open>http://\<close>,
  \<open>https://\<close>, \<open>ipfs://\<close> is stripped once (none, if none matches), the result has the
  length of the stripped string, and at each index it holds an underscore where the
  stripped string holds one of \<open>/ \ # ? : . &\<close> and the same character elsewhere. In
  particular \<open>https://foo.com/x?y#1\<close> becomes \<open>foo_com_x_y_1\<close> for every \<open>maxLength\<close>
  of at least 13.
\<close>

theorem UriToSubpath_strip_and_replace:
  "(length (spec_replace_special (spec_strip_scheme uri)) \<le> unat maxLength \<longrightarrow>
      UriToSubpath uri maxLength = Inr (spec_replace_special (spec_strip_scheme uri))
      \<and> (\<exists>r. UriToSubpath uri maxLength = Inr r
            \<and> length r = length (spec_strip_scheme uri)
            \<and> (\<forall>i < length r.
                  r ! i = (if spec_strip_scheme uri ! i \<in> set special_chars then CHR ''_''
                           else spec_strip_scheme uri ! i))))
   \<and> (13 \<le> unat maxLength \<longrightarrow>
        UriToSubpath ''https://foo.com/x?y#1'' maxLength = Inr ''foo_com_x_y_1'')"
proof -
  have a: "UriToSubpath u maxLength = Inr (spec_replace_special (spec_strip_scheme u))"
    if "length (spec_replace_special (spec_strip_scheme u)) \<le> unat maxLength" for u
    using that by (simp add: UriToSubpath_unfold Let_def)
  have b: "length (spec_replace_special s) = length s
     \<and> (\<forall>i < length (spec_replace_special s).
           spec_replace_special s ! i = (if s ! i \<in> set special_chars then CHR ''_'' else s ! i))"
    for s
    by (simp add: spec_replace_special_def)
  have c: "spec_replace_special (spec_strip_scheme ''https://foo.com/x?y#1'') = ''foo_com_x_y_1''"
    by (simp add: spec_replace_special_def spec_strip_scheme_def special_chars_def backslash_def)
  have d: "UriToSubpath ''https://foo.com/x?y#1'' maxLength = Inr ''foo_com_x_y_1''"
    if "13 \<le> unat maxLength"
    using a [of "''https://foo.com/x?y#1''"] that unfolding c by simp
  from a [of uri] b [of "spec_strip_scheme uri"] d show ?thesis by auto
qed

theorem UriToSubpath_strip_and_replace_witness:
  "length (spec_replace_special (spec_strip_scheme ''ipfs://a.b/c'')) \<le> unat (255 :: size_t)
   \<and> UriToSubpath ''ipfs://a.b/c'' 255 = Inr ''a_b_c''
   \<and> 13 \<le> unat (255 :: size_t)
   \<and> UriToSubpath ''https://foo.com/x?y#1'' 255 = Inr ''foo_com_x_y_1''"
proof -
  have c: "spec_replace_special (spec_strip_scheme ''ipfs://a.b/c'') = ''a_b_c''"
    by (simp add: spec_replace_special_def spec_strip_scheme_def special_chars_def backslash_def)
  have a: "length (spec_replace_special (spec_strip_scheme ''ipfs://a.b/c'')) \<le> unat (255 :: size_t)"
    unfolding c by simp
  have b: "13 \<le> unat (255 :: size_t)" by simp
  from a b UriToSubpath_strip_and_replace [of "''ipfs://a.b/c''" 255] show ?thesis
    unfolding c by blast
qed

end
